theory Spec2Isabelle
  imports Complex_Main
begin

section \<open>Data model\<close>

text \<open>
  The tracking page of the repository (\<^verbatim>\<open>src/app/page.tsx\<close>) keeps a stopwatch, a
  running GPS distance and a list of laps. JavaScript numbers are modelled by their
  mathematical values: coordinates and distances as \<^typ>\<open>real\<close>, clock readings
  (\<^verbatim>\<open>Date.now()\<close>, milliseconds) and whole seconds as \<^typ>\<open>int\<close>. Rounding of
  IEEE doubles is not part of the model.
\<close>

record Position =
  latitude :: real
  longitude :: real
  timestamp :: int

record Lap =
  lapNumber :: nat
  time :: string
  distance :: real
  lapTime :: string
  lapDistance :: real

section \<open>Great-circle distance\<close>

text \<open>
  \<^verbatim>\<open>Math.atan2(y, x)\<close> on real arguments: the angle of the point \<open>(x, y)\<close> in
  \<open>(-\<pi>, \<pi>]\<close>, with \<^verbatim>\<open>Math.atan2(0, 0) = 0\<close>.
\<close>

definition atan2 :: "real \<Rightarrow> real \<Rightarrow> real" where
  "atan2 y x =
     (if 0 < x then arctan (y / x)
      else if x < 0 then (if 0 \<le> y then arctan (y / x) + pi else arctan (y / x) - pi)
      else if 0 < y then pi / 2
      else if y < 0 then - (pi / 2)
      else 0)"

text \<open>
  \<^verbatim>\<open>calculateDistance\<close> (lines 30-43). The source names \<open>phi1\<close>, \<open>phi2\<close>,
  \<open>dphi\<close> and \<open>dlam\<close> with Greek letters.
\<close>

definition calculateDistance :: "Position \<Rightarrow> Position \<Rightarrow> real" where
  "calculateDistance pos1 pos2 =
     (let R = 6371000;
          phi1 = (latitude pos1 * pi) / 180;
          phi2 = (latitude pos2 * pi) / 180;
          dphi = ((latitude pos2 - latitude pos1) * pi) / 180;
          dlam = ((longitude pos2 - longitude pos1) * pi) / 180;
          a = sin (dphi / 2) * sin (dphi / 2)
              + cos phi1 * cos phi2 * sin (dlam / 2) * sin (dlam / 2);
          c = 2 * atan2 (sqrt a) (sqrt (1 - a))
      in R * c)"

text \<open>
  The haversine formula in the words of the specification: latitudes and longitudes
  converted to radians, the signed differences of the radian values, squared sines, and
  a sphere of radius 6 371 000 m.
\<close>

definition radians :: "real \<Rightarrow> real" where
  "radians deg = deg * (pi / 180)"

definition haversine_spec :: "real \<Rightarrow> real \<Rightarrow> real \<Rightarrow> real \<Rightarrow> real" where
  "haversine_spec lat1 lon1 lat2 lon2 =
     (let a = (sin ((radians lat2 - radians lat1) / 2))\<^sup>2
              + cos (radians lat1) * cos (radians lat2)
                * (sin ((radians lon2 - radians lon1) / 2))\<^sup>2;
          c = 2 * atan2 (sqrt a) (sqrt (1 - a))
      in 6371000 * c)"

section \<open>Time formatting\<close>

text \<open>
  \<^verbatim>\<open>Number.prototype.toString\<close> on an integer (below \<open>10\<^sup>2\<^sup>1\<close> in absolute value,
  where JavaScript prints plain decimal digits), \<^verbatim>\<open>padStart\<close>, and the remainder
  operator \<^verbatim>\<open>%\<close>, whose result takes the sign of the dividend.
\<close>

fun digits :: "nat \<Rightarrow> string" where
  "digits n = (if n < 10 then [''0123456789'' ! n]
               else digits (n div 10) @ [''0123456789'' ! (n mod 10)])"

declare digits.simps [simp del]

definition toString :: "int \<Rightarrow> string" where
  "toString n = (if n < 0 then CHR ''-'' # digits (nat (- n)) else digits (nat n))"

definition padStart :: "nat \<Rightarrow> char \<Rightarrow> string \<Rightarrow> string" where
  "padStart targetLength c str = replicate (targetLength - length str) c @ str"

definition jsRem :: "int \<Rightarrow> int \<Rightarrow> int" where
  "jsRem a b = sgn a * (\<bar>a\<bar> mod \<bar>b\<bar>)"

text \<open>\<^verbatim>\<open>formatTime\<close> (lines 45-58).\<close>

definition formatTime :: "int \<Rightarrow> string" where
  "formatTime seconds =
     (let hrs = \<lfloor>real_of_int seconds / 3600\<rfloor>;
          mins = \<lfloor>real_of_int (jsRem seconds 3600) / 60\<rfloor>;
          secs = jsRem seconds 60
      in if hrs > 0
         then padStart 2 CHR ''0'' (toString hrs) @ '':''
              @ padStart 2 CHR ''0'' (toString mins) @ '':''
              @ padStart 2 CHR ''0'' (toString secs)
         else padStart 2 CHR ''0'' (toString mins) @ '':''
              @ padStart 2 CHR ''0'' (toString secs))"

section \<open>Component state\<close>

text \<open>
  The \<^verbatim>\<open>useState\<close> cells and \<^verbatim>\<open>useRef\<close> cells of \<^verbatim>\<open>Home\<close> (lines 68-86) that
  the tracking handlers read or write. The theme, debug-mode and tab-visibility cells are
  left out: no handler below touches them. \<open>timerRef\<close> records whether the one-second
  interval is installed.
\<close>

record state =
  isTracking :: bool
  hasLocationPermission :: bool
  isLoading :: bool
  error :: string
  elapsedTime :: int
  totalDistance :: real
  laps :: "Lap list"
  currentPosition :: "Position option"
  lastGpsUpdate :: int
  watchIdRef :: "nat option"
  lastPositionRef :: "Position option"
  startTimeRef :: "int option"
  timerRef :: bool
  lastLapDistanceRef :: real
  lastLapTimeRef :: int

text \<open>The state at mount: the initial values of the cells.\<close>

definition initial :: state where
  "initial =
     \<lparr>isTracking = False, hasLocationPermission = False, isLoading = False, error = [],
      elapsedTime = 0, totalDistance = 0, laps = [], currentPosition = None,
      lastGpsUpdate = 0, watchIdRef = None, lastPositionRef = None, startTimeRef = None,
      timerRef = False, lastLapDistanceRef = 0, lastLapTimeRef = 0\<rparr>"

text \<open>
  JavaScript truthiness of a \<^verbatim>\<open>number | null\<close> cell: \<^verbatim>\<open>null\<close> and \<open>0\<close> are falsy.
  The handlers test \<^verbatim>\<open>startTimeRef.current\<close> this way.
\<close>

definition truthy :: "int option \<Rightarrow> bool" where
  "truthy r = (case r of None \<Rightarrow> False | Some t \<Rightarrow> t \<noteq> 0)"

text \<open>
  The guard shared by the timer effect (line 108), \<^verbatim>\<open>stopTracking\<close> (line 220) and
  \<^verbatim>\<open>recordLap\<close> (line 235): a session is active.
\<close>

definition running :: "state \<Rightarrow> bool" where
  "running s = (isTracking s \<and> truthy (startTimeRef s))"

section \<open>Handlers\<close>

text \<open>
  \<^verbatim>\<open>requestLocationPermission\<close> (lines 124-165). The answer of the browser is a
  parameter; the wait for it is not modelled, the handler runs to its end.
\<close>

datatype geo_outcome = Unsupported | Granted | Failed nat

definition requestLocationPermission :: "geo_outcome \<Rightarrow> state \<Rightarrow> state" where
  "requestLocationPermission outcome s =
     (let s1 = s\<lparr>isLoading := True, error := []\<rparr>
      in case outcome of
           Unsupported \<Rightarrow>
             s1\<lparr>error := ''Geolocation is not supported by this browser.'',
                isLoading := False\<rparr>
         | Granted \<Rightarrow> s1\<lparr>hasLocationPermission := True, isLoading := False\<rparr>
         | Failed code \<Rightarrow>
             s1\<lparr>error :=
                  (if code = 1
                   then ''Location access denied. Please enable location permissions.''
                   else if code = 2 then ''Location unavailable. Please try again.''
                   else if code = 3 then ''Location request timed out. Please try again.''
                   else ''Unable to access location.''),
                isLoading := False\<rparr>)"

text \<open>
  \<^verbatim>\<open>startTracking\<close> (lines 167-216), up to the registration of the position watch.
  \<open>now\<close> is the reading of \<^verbatim>\<open>Date.now()\<close> and \<open>wid\<close> the identifier returned by
  \<^verbatim>\<open>watchPosition\<close>.
\<close>

definition startTracking :: "geo_outcome \<Rightarrow> int \<Rightarrow> nat \<Rightarrow> state \<Rightarrow> state" where
  "startTracking outcome now wid s =
     (if \<not> hasLocationPermission s then requestLocationPermission outcome s
      else s\<lparr>isTracking := True, elapsedTime := 0, totalDistance := 0, laps := [],
             lastPositionRef := None, startTimeRef := Some now,
             lastLapDistanceRef := 0, lastLapTimeRef := 0, watchIdRef := Some wid\<rparr>)"

text \<open>
  The success callback of the position watch (lines 183-205). \<open>now1\<close> and \<open>now2\<close> are
  its two readings of the clock.
\<close>

definition positionCallback :: "real \<Rightarrow> real \<Rightarrow> int \<Rightarrow> int \<Rightarrow> state \<Rightarrow> state" where
  "positionCallback lat lon now1 now2 s =
     (let newPosition = \<lparr>latitude = lat, longitude = lon, timestamp = now1\<rparr>;
          s1 = s\<lparr>currentPosition := Some newPosition, lastGpsUpdate := now2\<rparr>;
          s2 = (case lastPositionRef s1 of
                  None \<Rightarrow> s1
                | Some lastPosition \<Rightarrow>
                    (let distance = calculateDistance lastPosition newPosition
                     in if distance > 5
                        then s1\<lparr>totalDistance := totalDistance s1 + distance\<rparr>
                        else s1))
      in s2\<lparr>lastPositionRef := Some newPosition\<rparr>)"

text \<open>The error callback of the position watch (lines 206-209).\<close>

definition positionError :: "state \<Rightarrow> state" where
  "positionError s =
     s\<lparr>error := ''GPS tracking error. Please check your location settings.''\<rparr>"

text \<open>\<^verbatim>\<open>recordLap\<close> (lines 234-253).\<close>

definition recordLap :: "state \<Rightarrow> state" where
  "recordLap s =
     (if \<not> isTracking s \<or> \<not> truthy (startTimeRef s) then s
      else let currentTime = elapsedTime s;
               currentDistance = totalDistance s;
               lapTime' = currentTime - lastLapTimeRef s;
               lapDistance' = currentDistance - lastLapDistanceRef s;
               newLap = \<lparr>lapNumber = length (laps s) + 1,
                         time = formatTime currentTime,
                         distance = currentDistance,
                         lapTime = formatTime lapTime',
                         lapDistance = lapDistance'\<rparr>
           in s\<lparr>laps := laps s @ [newLap],
                lastLapDistanceRef := currentDistance,
                lastLapTimeRef := currentTime\<rparr>)"

text \<open>\<^verbatim>\<open>stopTracking\<close> (lines 218-232).\<close>

definition stopTracking :: "state \<Rightarrow> state" where
  "stopTracking s =
     (let s1 = (if isTracking s \<and> truthy (startTimeRef s) then recordLap s else s)
      in s1\<lparr>isTracking := False, watchIdRef := None, startTimeRef := None,
            lastPositionRef := None, currentPosition := None\<rparr>)"

text \<open>
  The timer effect (lines 107-122). It runs after a render in which \<open>isTracking\<close>
  changed: the previous interval is cleared and a new one is installed when a session is
  active. The interval callback reads the clock; a \<^verbatim>\<open>null\<close> start time counts as
  \<open>0\<close> in the subtraction.
\<close>

definition timerEffect :: "state \<Rightarrow> state" where
  "timerEffect s = s\<lparr>timerRef := (isTracking s \<and> truthy (startTimeRef s))\<rparr>"

definition timerCallback :: "int \<Rightarrow> state \<Rightarrow> state" where
  "timerCallback now s =
     s\<lparr>elapsedTime :=
         \<lfloor>(real_of_int now
            - real_of_int (case startTimeRef s of None \<Rightarrow> 0 | Some t \<Rightarrow> t)) / 1000\<rfloor>\<rparr>"

section \<open>Events\<close>

text \<open>
  What the browser can deliver to the page. The Start button is rendered only while
  \<open>isTracking\<close> is false (line 392); a position is delivered only while a watch is
  registered, and a tick only while the interval is installed. The Lap and Stop handlers
  carry their own guards and are applied as they are.
\<close>

datatype event =
    ClickStart geo_outcome int nat
  | ClickLap
  | ClickStop
  | GpsSample real real int int
  | GpsError
  | Tick int

fun handle :: "event \<Rightarrow> state \<Rightarrow> state" where
  "handle (ClickStart outcome now wid) s =
     (if isTracking s then s else startTracking outcome now wid s)"
| "handle ClickLap s = recordLap s"
| "handle ClickStop s = stopTracking s"
| "handle (GpsSample lat lon now1 now2) s =
     (if watchIdRef s = None then s else positionCallback lat lon now1 now2 s)"
| "handle GpsError s = (if watchIdRef s = None then s else positionError s)"
| "handle (Tick now) s = (if timerRef s then timerCallback now s else s)"

definition step :: "event \<Rightarrow> state \<Rightarrow> state" where
  "step e s =
     (let s' = handle e s
      in if isTracking s' \<noteq> isTracking s then timerEffect s' else s')"

fun run :: "event list \<Rightarrow> state \<Rightarrow> state" where
  "run [] s = s"
| "run (e # es) s = run es (step e s)"

fun is_start :: "event \<Rightarrow> bool" where
  "is_start (ClickStart outcome now wid) = True"
| "is_start e = False"

section \<open>Observations of a run\<close>

text \<open>
  The running totals seen after each of a sequence of delivered samples, each sample
  being the latitude, the longitude and the two clock readings of the callback.
\<close>

fun ingestTotals :: "(real \<times> real \<times> int \<times> int) list \<Rightarrow> state \<Rightarrow> real list" where
  "ingestTotals [] s = []"
| "ingestTotals ((lat, lon, now1, now2) # samples) s =
     (let s' = positionCallback lat lon now1 now2 s
      in totalDistance s' # ingestTotals samples s')"

text \<open>
  The lap boundaries of a run: the elapsed seconds and the total distance at each click on
  Lap or Stop that finds a session active. A lap stores its times only as formatted
  strings; the boundaries keep the seconds they were formatted from.
\<close>

fun marks_lap :: "event \<Rightarrow> bool" where
  "marks_lap ClickLap = True"
| "marks_lap ClickStop = True"
| "marks_lap e = False"

fun boundaries :: "event list \<Rightarrow> state \<Rightarrow> (int \<times> real) list" where
  "boundaries [] s = []"
| "boundaries (e # es) s =
     (if marks_lap e \<and> running s then [(elapsedTime s, totalDistance s)] else [])
     @ boundaries es (step e s)"

text \<open>
  The lap list agrees with a list of boundaries: each lap shows its boundary and the
  difference to the boundary before it, and the two baseline cells hold the last boundary.
\<close>

definition lap_inv :: "(int \<times> real) list \<Rightarrow> state \<Rightarrow> bool" where
  "lap_inv B s =
     (length (laps s) = length B
      \<and> (\<forall>n<length B.
            lapNumber (laps s ! n) = n + 1
          \<and> time (laps s ! n) = formatTime (fst (B ! n))
          \<and> distance (laps s ! n) = snd (B ! n)
          \<and> lapTime (laps s ! n)
              = formatTime (fst (B ! n) - (if n = 0 then 0 else fst (B ! (n - 1))))
          \<and> lapDistance (laps s ! n)
              = snd (B ! n) - (if n = 0 then 0 else snd (B ! (n - 1))))
      \<and> lastLapTimeRef s = (if B = [] then 0 else fst (last B))
      \<and> lastLapDistanceRef s = (if B = [] then 0 else snd (last B)))"

text \<open>The state a stop leaves behind: nothing is registered and the session cells are empty.\<close>

definition stopped :: "state \<Rightarrow> bool" where
  "stopped s =
     (\<not> isTracking s \<and> \<not> timerRef s \<and> watchIdRef s = None \<and> startTimeRef s = None
      \<and> lastPositionRef s = None \<and> currentPosition s = None)"

section \<open>Example runs\<close>

text \<open>
  A session started at clock reading 500 (the first click only obtains the permission)
  whose first sample, at latitude 0 and longitude 0, has been stored as the anchor.
\<close>

definition anchored :: state where
  "anchored =
     run [ClickStart Granted 400 1, ClickStart Granted 500 1, GpsSample 0 0 1000 1001] initial"

text \<open>
  The events of a session with two laps: about 11 m are covered before the first lap, the
  second lap is closed by the stop, and a second stop and a late lap click follow.
\<close>

definition lapped :: "event list" where
  "lapped = [GpsSample 0 0 1000 1001, Tick 66000, GpsSample 0 (1 / 10000) 66400 66401,
             ClickLap, Tick 131000, ClickStop, ClickStop, ClickLap]"

section \<open>Numeric facts\<close>

text \<open>
  Bounds on \<open>\<pi>\<close> from the Maclaurin polynomial of the sine at \<open>\<pi>/6\<close>, where the sine
  is \<open>1/2\<close>.
\<close>

lemma lt7: "{..<7::nat} = {0,1,2,3,4,5,6}" by auto

lemma sum7: "(\<Sum>m<7. sin_coeff m * (x::real) ^ m) = x - x^3/6 + x^5/120"
  unfolding lt7
  by (simp add: sin_coeff_def fact_numeral)

lemma sin_taylor7: "\<bar>sin (x::real) - (x - x^3/6 + x^5/120)\<bar> \<le> \<bar>x\<bar>^7 / 5040"
  using Maclaurin_sin_bound [of x 7] unfolding sum7
  by (simp add: fact_numeral)

lemma pi_lower: "(314/100::real) < pi"
proof -
  let ?x = "(157/300::real)"
  have "sin ?x \<le> (?x - ?x^3/6 + ?x^5/120) + \<bar>?x\<bar>^7 / 5040"
    using sin_taylor7 [of ?x] by linarith
  also have "\<dots> < 1/2" by (simp add: power_divide)
  finally have "sin ?x < sin (pi/6)" by (simp add: sin_30)
  moreover have "- (pi/2) \<le> ?x" "?x \<le> pi/2" "- (pi/2) \<le> pi/6" "pi/6 \<le> pi/2"
    using pi_ge_two by simp_all
  ultimately have "?x < pi/6" using sin_mono_less_eq by blast
  then show ?thesis by simp
qed

lemma pi_upper: "pi < (3142/1000::real)"
proof -
  let ?x = "(1571/3000::real)"
  have "(1/2::real) < (?x - ?x^3/6 + ?x^5/120) - \<bar>?x\<bar>^7 / 5040" by (simp add: power_divide)
  also have "\<dots> \<le> sin ?x"
    using sin_taylor7 [of ?x] by linarith
  finally have "sin (pi/6) < sin ?x" by (simp add: sin_30)
  moreover have "- (pi/2) \<le> ?x" "?x \<le> pi/2" "- (pi/2) \<le> pi/6" "pi/6 \<le> pi/2"
    using pi_ge_two by simp_all
  ultimately have "pi/6 < ?x" using sin_mono_less_eq by blast
  then show ?thesis by simp
qed

section \<open>Facts about the distance\<close>

text \<open>
  The argument \<open>a\<close> of the two square roots lies between \<open>0\<close> and \<open>1\<close> for all
  coordinates, so neither root is taken of a negative number.
\<close>

lemma sin_half_sq: "sin (x / 2) * sin (x / 2) = (1 - cos x) / (2::real)"
  using cos_double_sin [of "x / 2"] by (simp add: power2_eq_square)

lemma haversine_a_range:
  fixes p1 p2 dl :: real
  defines "a \<equiv> sin ((p2 - p1) / 2) * sin ((p2 - p1) / 2)
                + cos p1 * cos p2 * sin (dl / 2) * sin (dl / 2)"
  shows "0 \<le> a \<and> a \<le> 1"
proof -
  define p where "p = cos p1 * cos p2"
  define q where "q = sin p1 * sin p2"
  define k where "k = cos dl"
  have k: "- 1 \<le> k" "k \<le> 1" by (simp_all add: k_def)
  have "a = (1 - cos (p2 - p1)) / 2 + p * ((1 - k) / 2)"
    unfolding a_def p_def k_def mult.assoc sin_half_sq by simp
  also have "cos (p2 - p1) = p + q" by (simp add: cos_diff p_def q_def mult.commute)
  finally have a: "a = (1 - (q + p * k)) / 2" by (simp add: field_simps)
  have d: "q + p = cos (p1 - p2)" by (simp add: cos_diff p_def q_def)
  have s: "q - p = - cos (p1 + p2)" by (simp add: cos_add p_def q_def)
  have d1: "q + p \<le> 1" "- 1 \<le> q + p" unfolding d by simp_all
  have s1: "q - p \<le> 1" "- 1 \<le> q - p" unfolding s by simp_all
  have "\<bar>k\<bar> \<le> 1" using k by (simp add: abs_le_iff)
  then have "\<bar>p\<bar> * \<bar>k\<bar> \<le> \<bar>p\<bar> * 1" by (intro mult_left_mono) simp_all
  then have pk: "\<bar>p * k\<bar> \<le> \<bar>p\<bar>" by (simp add: abs_mult)
  have "q + p * k \<le> 1" "- 1 \<le> q + p * k"
    using pk d1 s1 by linarith+
  then show ?thesis unfolding a by simp
qed

lemma calculateDistance_sqrt_args:
  fixes pos1 pos2 :: Position
  defines "a \<equiv> sin (((latitude pos2 - latitude pos1) * pi) / 180 / 2)
                  * sin (((latitude pos2 - latitude pos1) * pi) / 180 / 2)
                + cos ((latitude pos1 * pi) / 180) * cos ((latitude pos2 * pi) / 180)
                  * sin (((longitude pos2 - longitude pos1) * pi) / 180 / 2)
                  * sin (((longitude pos2 - longitude pos1) * pi) / 180 / 2)"
  shows "0 \<le> a \<and> a \<le> 1"
proof -
  have e: "((latitude pos2 - latitude pos1) * pi) / 180
          = (latitude pos2 * pi) / 180 - (latitude pos1 * pi) / 180"
    by (simp add: left_diff_distrib diff_divide_distrib)
  show ?thesis
    unfolding a_def e
    by (rule haversine_a_range)
qed

lemma atan2_sin_cos:
  assumes "0 \<le> h" "h < pi/2"
  shows "atan2 (sqrt (sin h * sin h)) (sqrt (1 - sin h * sin h)) = h"
proof -
  have s: "0 \<le> sin h" using assms by (intro sin_ge_zero) (use pi_gt_zero in linarith)+
  have c: "0 < cos h" using assms by (intro cos_gt_zero_pi) linarith+
  have "1 - sin h * sin h = cos h * cos h"
    using sin_cos_squared_add [of h] by (simp add: power2_eq_square algebra_simps)
  then have "sqrt (1 - sin h * sin h) = cos h" using c by simp
  moreover have "sqrt (sin h * sin h) = sin h" using s by simp
  moreover have "arctan (sin h / cos h) = h"
    using arctan_tan [of h] assms by (simp add: tan_def)
  ultimately show ?thesis using c by (simp add: atan2_def)
qed

lemma calculateDistance_equator:
  assumes "0 \<le> x" "x < 180"
  shows "calculateDistance \<lparr>latitude = 0, longitude = 0, timestamp = t\<rparr>
           \<lparr>latitude = 0, longitude = x, timestamp = t'\<rparr> = 6371000 * (x * pi / 180)"
proof -
  define h where "h = x * pi / 180 / 2"
  have "0 \<le> h" "h < pi/2" using assms by (simp_all add: h_def field_simps)
  from atan2_sin_cos [OF this]
  have "atan2 (sqrt (sin h * sin h)) (sqrt (1 - sin h * sin h)) = h" .
  moreover have "calculateDistance \<lparr>latitude = 0, longitude = 0, timestamp = t\<rparr>
           \<lparr>latitude = 0, longitude = x, timestamp = t'\<rparr>
         = 6371000 * (2 * atan2 (sqrt (sin h * sin h)) (sqrt (1 - sin h * sin h)))"
    unfolding calculateDistance_def Let_def h_def by simp
  ultimately have "calculateDistance \<lparr>latitude = 0, longitude = 0, timestamp = t\<rparr>
           \<lparr>latitude = 0, longitude = x, timestamp = t'\<rparr> = 6371000 * (2 * h)"
    by (simp only:)
  then show ?thesis by (simp add: h_def)
qed

lemma calculateDistance_eq_spec:
  "calculateDistance pos1 pos2
     = haversine_spec (latitude pos1) (longitude pos1) (latitude pos2) (longitude pos2)"
  by (simp add: calculateDistance_def haversine_spec_def radians_def Let_def
      power2_eq_square diff_divide_distrib left_diff_distrib mult.assoc)

lemma dist_3m: "calculateDistance \<lparr>latitude = 0, longitude = 0, timestamp = 1000\<rparr>
     \<lparr>latitude = 0, longitude = 3 / 100000, timestamp = 2000\<rparr> \<le> 5"
  using pi_less_4 by (simp add: calculateDistance_equator)

lemma dist_11m: "\<bar>calculateDistance \<lparr>latitude = 0, longitude = 0, timestamp = t\<rparr>
     \<lparr>latitude = 0, longitude = 1 / 10000, timestamp = t'\<rparr> - 11.1\<bar> < 0.05"
  using pi_lower pi_upper by (simp add: calculateDistance_equator abs_if)

lemma dist_5m: "calculateDistance \<lparr>latitude = 0, longitude = 0, timestamp = t\<rparr>
     \<lparr>latitude = 0, longitude = 900 / (6371000 * pi), timestamp = t'\<rparr> = 5"
proof -
  have "(900::real) / (6371000 * pi) < 180"
    using pi_ge_two by (simp add: field_simps)
  then show ?thesis by (simp add: calculateDistance_equator)
qed

lemma dist_11m_gt5: "5 < calculateDistance \<lparr>latitude = 0, longitude = 0, timestamp = t\<rparr>
     \<lparr>latitude = 0, longitude = 1 / 10000, timestamp = t'\<rparr>"
  using dist_11m [of t t'] by (simp add: abs_if split: if_splits)

section \<open>Facts about the handlers\<close>

lemma anchored_eq:
  "anchored = initial\<lparr>isTracking := True, hasLocationPermission := True,
       currentPosition := Some \<lparr>latitude = 0, longitude = 0, timestamp = 1000\<rparr>,
       lastGpsUpdate := 1001, watchIdRef := Some 1,
       lastPositionRef := Some \<lparr>latitude = 0, longitude = 0, timestamp = 1000\<rparr>,
       startTimeRef := Some 500, timerRef := True\<rparr>"
  by (simp add: anchored_def step_def startTracking_def requestLocationPermission_def
      positionCallback_def timerEffect_def truthy_def initial_def Let_def)

lemma positionCallback_total:
  "totalDistance (positionCallback lat lon now1 now2 s) =
     (case lastPositionRef s of
        None \<Rightarrow> totalDistance s
      | Some a \<Rightarrow>
          (if 5 < calculateDistance a \<lparr>latitude = lat, longitude = lon, timestamp = now1\<rparr>
           then totalDistance s
                + calculateDistance a \<lparr>latitude = lat, longitude = lon, timestamp = now1\<rparr>
           else totalDistance s))"
  by (simp add: positionCallback_def Let_def split: option.split)

lemma positionCallback_anchor:
  "lastPositionRef (positionCallback lat lon now1 now2 s)
     = Some \<lparr>latitude = lat, longitude = lon, timestamp = now1\<rparr>"
  by (simp add: positionCallback_def Let_def split: option.split)

lemma positionCallback_mono:
  "totalDistance s \<le> totalDistance (positionCallback lat lon now1 now2 s)"
  by (simp add: positionCallback_total split: option.split)

lemma recordLap_idle: "\<not> running s \<Longrightarrow> recordLap s = s"
  by (auto simp: recordLap_def running_def)

lemma recordLap_running:
  "running s \<Longrightarrow> recordLap s =
     s\<lparr>laps := laps s @ [\<lparr>lapNumber = length (laps s) + 1,
                           time = formatTime (elapsedTime s),
                           distance = totalDistance s,
                           lapTime = formatTime (elapsedTime s - lastLapTimeRef s),
                           lapDistance = totalDistance s - lastLapDistanceRef s\<rparr>],
       lastLapDistanceRef := totalDistance s,
       lastLapTimeRef := elapsedTime s\<rparr>"
  by (simp add: recordLap_def running_def Let_def)

lemma lap_inv_recordLap:
  assumes "lap_inv B s" "running s"
  shows "lap_inv (B @ [(elapsedTime s, totalDistance s)]) (recordLap s)"
  using assms
  by (auto simp: lap_inv_def recordLap_running nth_append last_conv_nth less_Suc_eq)

lemma lap_inv_frame:
  assumes "lap_inv B s" "laps s' = laps s" "lastLapTimeRef s' = lastLapTimeRef s"
    "lastLapDistanceRef s' = lastLapDistanceRef s"
  shows "lap_inv B s'"
  using assms by (simp add: lap_inv_def)

lemma lap_inv_step:
  assumes "lap_inv B s" "\<not> is_start e"
  shows "lap_inv (B @ (if marks_lap e \<and> running s then [(elapsedTime s, totalDistance s)] else []))
           (step e s)"
proof (cases e)
  case (ClickStart outcome now wid)
  with assms show ?thesis by simp
next
  case ClickLap
  show ?thesis
  proof (cases "running s")
    case True
    from lap_inv_recordLap [OF assms(1) True]
    show ?thesis using True ClickLap
      by (auto simp: step_def Let_def timerEffect_def recordLap_running elim: lap_inv_frame)
  next
    case False
    then show ?thesis using assms ClickLap by (simp add: step_def recordLap_idle)
  qed
next
  case ClickStop
  show ?thesis
  proof (cases "running s")
    case True
    from lap_inv_recordLap [OF assms(1) True]
    have "lap_inv (B @ [(elapsedTime s, totalDistance s)]) (recordLap s)" .
    then have "lap_inv (B @ [(elapsedTime s, totalDistance s)]) (step ClickStop s)"
      by (rule lap_inv_frame)
         (use True in \<open>simp_all add: step_def stopTracking_def Let_def timerEffect_def running_def\<close>)
    then show ?thesis using True ClickStop by simp
  next
    case False
    have "lap_inv B (step ClickStop s)"
      by (rule lap_inv_frame [OF assms(1)])
         (use False in \<open>simp_all add: step_def stopTracking_def Let_def timerEffect_def running_def\<close>)
    then show ?thesis using False ClickStop by simp
  qed
next
  case (GpsSample lat lon now1 now2)
  have "lap_inv B (step e s)"
    by (rule lap_inv_frame [OF assms(1)])
       (simp_all add: GpsSample step_def positionCallback_def Let_def split: option.split)
  then show ?thesis using GpsSample by simp
next
  case GpsError
  have "lap_inv B (step e s)"
    by (rule lap_inv_frame [OF assms(1)])
       (simp_all add: GpsError step_def positionError_def Let_def)
  then show ?thesis using GpsError by simp
next
  case (Tick now)
  have "lap_inv B (step e s)"
    by (rule lap_inv_frame [OF assms(1)])
       (simp_all add: Tick step_def timerCallback_def Let_def)
  then show ?thesis using Tick by simp
qed

lemma lap_inv_run:
  assumes "lap_inv B s" "\<forall>e\<in>set es. \<not> is_start e"
  shows "lap_inv (B @ boundaries es s) (run es s)"
  using assms
proof (induction es arbitrary: B s)
  case Nil
  then show ?case by simp
next
  case (Cons e es)
  from Cons.prems have ns: "\<not> is_start e" and rest: "\<forall>e\<in>set es. \<not> is_start e" by simp_all
  from lap_inv_step [OF Cons.prems(1) ns] Cons.IH [OF _ rest]
  show ?case by fastforce
qed

lemma lap_inv_start:
  assumes "hasLocationPermission s" "\<not> isTracking s"
  shows "lap_inv [] (step (ClickStart outcome now wid) s)"
  using assms by (simp add: lap_inv_def step_def startTracking_def timerEffect_def Let_def)

lemma stopped_step:
  assumes "stopped s" "\<not> is_start e"
  shows "step e s = s"
  using assms
  by (cases e)
     (simp_all add: stopped_def step_def recordLap_def stopTracking_def Let_def)

lemma stopped_run:
  assumes "stopped s" "\<forall>e\<in>set es. \<not> is_start e"
  shows "run es s = s"
  using assms by (induction es) (simp_all add: stopped_step)

lemma stopped_after_stop:
  assumes "isTracking s"
  shows "stopped (step ClickStop s)"
  using assms
  by (simp add: stopped_def step_def stopTracking_def Let_def timerEffect_def truthy_def
      recordLap_def)

lemma stopTracking_running:
  "running s \<Longrightarrow> stopTracking s =
     (recordLap s)\<lparr>isTracking := False, watchIdRef := None, startTimeRef := None,
                   lastPositionRef := None, currentPosition := None\<rparr>"
  by (simp add: stopTracking_def running_def)

lemma stopTracking_idle:
  "\<not> isTracking s \<Longrightarrow> stopTracking s =
     s\<lparr>isTracking := False, watchIdRef := None, startTimeRef := None,
       lastPositionRef := None, currentPosition := None\<rparr>"
  by (simp add: stopTracking_def)

lemma stopTracking_not_tracking: "\<not> isTracking (stopTracking s)"
  by (simp add: stopTracking_def Let_def)

lemma stopTracking_twice: "stopTracking (stopTracking s) = stopTracking s"
  by (simp add: stopTracking_idle [OF stopTracking_not_tracking]) (simp add: stopTracking_def Let_def)

lemma formatTime_65: "formatTime 65 = ''01:05''"
  by (simp add: formatTime_def jsRem_def toString_def padStart_def digits.simps Let_def)

lemma lapped_laps:
  "laps (run lapped (step (ClickStart Granted 500 1 ) (initial\<lparr>hasLocationPermission := True\<rparr>)))
   = [\<lparr>lapNumber = 1, time = ''01:05'',
       distance = calculateDistance \<lparr>latitude = 0, longitude = 0, timestamp = 1000\<rparr>
                    \<lparr>latitude = 0, longitude = 1 / 10000, timestamp = 66400\<rparr>,
       lapTime = ''01:05'',
       lapDistance = calculateDistance \<lparr>latitude = 0, longitude = 0, timestamp = 1000\<rparr>
                    \<lparr>latitude = 0, longitude = 1 / 10000, timestamp = 66400\<rparr>\<rparr>,
      \<lparr>lapNumber = 2, time = ''02:10'',
       distance = calculateDistance \<lparr>latitude = 0, longitude = 0, timestamp = 1000\<rparr>
                    \<lparr>latitude = 0, longitude = 1 / 10000, timestamp = 66400\<rparr>,
       lapTime = ''01:05'', lapDistance = 0\<rparr>]"
  using dist_11m_gt5 [of 1000 66400]
  by (simp add: lapped_def step_def startTracking_def positionCallback_def timerEffect_def
      timerCallback_def recordLap_def stopTracking_def truthy_def initial_def Let_def
      formatTime_def jsRem_def toString_def padStart_def digits.simps)

lemma anchored_running: "running anchored"
  by (simp add: anchored_eq running_def truthy_def initial_def)

lemma tick_anchored:
  "step (Tick 66000) anchored = anchored\<lparr>elapsedTime := 65\<rparr>"
  by (simp add: anchored_eq step_def timerCallback_def initial_def)

lemma floor_millis:
  "\<lfloor>(real_of_int a - real_of_int b) / 1000\<rfloor> = (a - b) div 1000"
  using floor_divide_of_int_eq [of "a - b" 1000, where ?'a = real] by simp

lemma timer_step:
  assumes "timerRef s = running s"
  shows "timerRef (step e s) = running (step e s)"
proof (cases "isTracking (handle e s) = isTracking s")
  case False
  then show ?thesis by (simp add: step_def timerEffect_def running_def Let_def)
next
  case True
  with assms show ?thesis
    by (cases e)
       (auto simp: step_def running_def startTracking_def requestLocationPermission_def
          recordLap_def stopTracking_def positionCallback_def positionError_def
          timerCallback_def truthy_def Let_def
          split: geo_outcome.splits option.splits if_splits)
qed

lemma timer_run:
  assumes "timerRef s = running s"
  shows "timerRef (run es s) = running (run es s)"
  using assms by (induction es arbitrary: s) (simp_all add: timer_step)

lemma timer_initial: "timerRef initial = running initial"
  by (simp add: initial_def running_def)

section \<open>Distance accumulation\<close>

text \<open>
  C10. While no anchor is stored, the position callback leaves the running total as it
  is and stores the sample as the anchor, whatever its coordinates. This is the state
  right after a start, where the anchor is empty and the total is \<open>0\<close>.
\<close>

theorem C10_first_sample_baseline:
  "lastPositionRef s = None \<longrightarrow>
     totalDistance (positionCallback lat lon now1 now2 s) = totalDistance s
     \<and> lastPositionRef (positionCallback lat lon now1 now2 s)
         = Some \<lparr>latitude = lat, longitude = lon, timestamp = now1\<rparr>"
  by (simp add: positionCallback_def Let_def)

theorem C10_first_sample_baseline_witness:
  "lastPositionRef (startTracking Granted 1000 7 (initial\<lparr>hasLocationPermission := True\<rparr>)) = None
   \<and> totalDistance (positionCallback 48 2 1500 1501
        (startTracking Granted 1000 7 (initial\<lparr>hasLocationPermission := True\<rparr>))) = 0
   \<and> lastPositionRef (positionCallback 48 2 1500 1501
        (startTracking Granted 1000 7 (initial\<lparr>hasLocationPermission := True\<rparr>)))
       = Some \<lparr>latitude = 48, longitude = 2, timestamp = 1500\<rparr>"
  using C10_first_sample_baseline
    [of "startTracking Granted 1000 7 (initial\<lparr>hasLocationPermission := True\<rparr>)" 48 2 1500 1501]
  by (simp add: startTracking_def initial_def)

text \<open>
  C2. With an anchor stored, let \<open>d\<close> be the distance from the anchor to the new
  sample. If \<open>d \<le> 5\<close> the total stays as it is; if \<open>d > 5\<close> the total grows by
  exactly \<open>d\<close>. The example covers a sample exactly 5 m away and one about 11 m away.
\<close>

theorem C2_noise_floor:
  "lastPositionRef s = Some anchor \<longrightarrow>
     (let d = calculateDistance anchor \<lparr>latitude = lat, longitude = lon, timestamp = now1\<rparr>;
          s' = positionCallback lat lon now1 now2 s
      in (d \<le> 5 \<longrightarrow> totalDistance s' = totalDistance s)
         \<and> (5 < d \<longrightarrow> totalDistance s' = totalDistance s + d))"
  by (simp add: positionCallback_total Let_def)

theorem C2_noise_floor_witness:
  "lastPositionRef anchored = Some \<lparr>latitude = 0, longitude = 0, timestamp = 1000\<rparr>
   \<and> calculateDistance \<lparr>latitude = 0, longitude = 0, timestamp = 1000\<rparr>
        \<lparr>latitude = 0, longitude = 900 / (6371000 * pi), timestamp = 2000\<rparr> = 5
   \<and> totalDistance (positionCallback 0 (900 / (6371000 * pi)) 2000 2001 anchored)
       = totalDistance anchored
   \<and> 5 < calculateDistance \<lparr>latitude = 0, longitude = 0, timestamp = 1000\<rparr>
        \<lparr>latitude = 0, longitude = 1 / 10000, timestamp = 2000\<rparr>
   \<and> totalDistance (positionCallback 0 (1 / 10000) 2000 2001 anchored)
       = totalDistance anchored
         + calculateDistance \<lparr>latitude = 0, longitude = 0, timestamp = 1000\<rparr>
             \<lparr>latitude = 0, longitude = 1 / 10000, timestamp = 2000\<rparr>"
proof -
  have a: "lastPositionRef anchored = Some \<lparr>latitude = 0, longitude = 0, timestamp = 1000\<rparr>"
    by (simp add: anchored_eq)
  have b: "5 < calculateDistance \<lparr>latitude = 0, longitude = 0, timestamp = 1000\<rparr>
        \<lparr>latitude = 0, longitude = 1 / 10000, timestamp = 2000\<rparr>"
    using dist_11m [of 1000 2000] by (simp add: abs_if split: if_splits)
  show ?thesis
    using C2_noise_floor [of anchored "\<lparr>latitude = 0, longitude = 0, timestamp = 1000\<rparr>"
            0 "900 / (6371000 * pi)" 2000 2001]
          C2_noise_floor [of anchored "\<lparr>latitude = 0, longitude = 0, timestamp = 1000\<rparr>"
            0 "1 / 10000" 2000 2001]
          a b dist_5m [of 1000 2000]
    by (simp add: Let_def)
qed

text \<open>
  C1, as the specification words it: a sample within 5 m of the anchor leaves the anchor
  in place. The page does not: after the anchor at longitude \<open>0\<close> a sample about 3.3 m
  to the east is rejected for the total and still becomes the anchor.
\<close>

theorem C1_counterexample:
  "calculateDistance \<lparr>latitude = 0, longitude = 0, timestamp = 1000\<rparr>
     \<lparr>latitude = 0, longitude = 3 / 100000, timestamp = 2000\<rparr> \<le> 5
   \<and> lastPositionRef anchored = Some \<lparr>latitude = 0, longitude = 0, timestamp = 1000\<rparr>
   \<and> lastPositionRef (positionCallback 0 (3 / 100000) 2000 2001 anchored)
       \<noteq> lastPositionRef anchored"
  using dist_3m by (simp add: anchored_eq positionCallback_anchor)

text \<open>
  C1, as the page behaves: a sample within 5 m of the anchor leaves the total as it is,
  and the sample replaces the anchor. The last assignment of the callback is outside the
  distance test, so every delivered sample becomes the next anchor.
\<close>

theorem C1_anchor_follows_sample:
  "lastPositionRef s = Some anchor \<and>
   calculateDistance anchor \<lparr>latitude = lat, longitude = lon, timestamp = now1\<rparr> \<le> 5 \<longrightarrow>
     totalDistance (positionCallback lat lon now1 now2 s) = totalDistance s
     \<and> lastPositionRef (positionCallback lat lon now1 now2 s)
         = Some \<lparr>latitude = lat, longitude = lon, timestamp = now1\<rparr>"
  by (simp add: positionCallback_total positionCallback_anchor)

theorem C1_anchor_follows_sample_witness:
  "lastPositionRef anchored = Some \<lparr>latitude = 0, longitude = 0, timestamp = 1000\<rparr>
   \<and> calculateDistance \<lparr>latitude = 0, longitude = 0, timestamp = 1000\<rparr>
        \<lparr>latitude = 0, longitude = 3 / 100000, timestamp = 2000\<rparr> \<le> 5
   \<and> totalDistance (positionCallback 0 (3 / 100000) 2000 2001 anchored) = 0
   \<and> lastPositionRef (positionCallback 0 (3 / 100000) 2000 2001 anchored)
       = Some \<lparr>latitude = 0, longitude = 3 / 100000, timestamp = 2000\<rparr>"
  using C1_anchor_follows_sample
    [of anchored "\<lparr>latitude = 0, longitude = 0, timestamp = 1000\<rparr>" 0 "3 / 100000" 2000 2001]
    dist_3m
  by (simp add: anchored_eq initial_def)

text \<open>
  C3. \<open>calculateDistance\<close> is the haversine formula of the specification on a
  sphere of radius 6 371 000 m, and from latitude 0, longitude 0 to latitude 0, longitude
  0.0001 it gives 11.1 m to within 5 cm.
\<close>

theorem C3_haversine:
  "calculateDistance pos1 pos2
     = haversine_spec (latitude pos1) (longitude pos1) (latitude pos2) (longitude pos2)
   \<and> \<bar>calculateDistance \<lparr>latitude = 0, longitude = 0, timestamp = t\<rparr>
        \<lparr>latitude = 0, longitude = 1 / 10000, timestamp = t'\<rparr> - 11.1\<bar> < 0.05"
  using calculateDistance_eq_spec dist_11m by blast

text \<open>
  C4. Along any sequence of delivered samples the running total never decreases: the
  total before the first sample followed by the totals after each sample is an ascending
  list.
\<close>

theorem C4_total_monotone:
  "sorted (totalDistance s # ingestTotals samples s)"
proof (induction samples arbitrary: s)
  case Nil
  show ?case by simp
next
  case (Cons p samples)
  obtain lat lon now1 now2 where p: "p = (lat, lon, now1, now2)" by (cases p) auto
  let ?s' = "positionCallback lat lon now1 now2 s"
  have le: "totalDistance s \<le> totalDistance ?s'" by (rule positionCallback_mono)
  have srt: "sorted (totalDistance ?s' # ingestTotals samples ?s')" by (rule Cons.IH)
  then have "\<forall>x\<in>set (ingestTotals samples ?s'). totalDistance ?s' \<le> x" by simp
  with le have "\<forall>x\<in>set (ingestTotals samples ?s'). totalDistance s \<le> x" by fastforce
  with le srt show ?case by (simp add: p Let_def)
qed

section \<open>Laps\<close>

text \<open>
  C5. In a session, from its start and through any events other than another start, lap
  \<open>n\<close> carries the number \<open>n\<close>, the elapsed seconds and the total distance of its
  boundary, and as lap time and lap distance the differences to the boundary of the lap
  before it (to \<open>0\<close> for the first lap). The times are stored formatted, so the
  identity for the seconds is stated on the seconds that were formatted.
\<close>

theorem C5_lap_deltas:
  "hasLocationPermission s \<and> \<not> isTracking s \<and> (\<forall>e\<in>set es. \<not> is_start e) \<longrightarrow>
     (let s0 = step (ClickStart outcome now wid) s;
          L = laps (run es s0);
          B = boundaries es s0
      in length L = length B
         \<and> (\<forall>n<length L.
               lapNumber (L ! n) = n + 1
             \<and> time (L ! n) = formatTime (fst (B ! n))
             \<and> distance (L ! n) = snd (B ! n)
             \<and> lapTime (L ! n)
                 = formatTime (fst (B ! n) - (if n = 0 then 0 else fst (B ! (n - 1))))
             \<and> lapDistance (L ! n)
                 = distance (L ! n) - (if n = 0 then 0 else distance (L ! (n - 1)))))"
proof (intro impI)
  assume h: "hasLocationPermission s \<and> \<not> isTracking s \<and> (\<forall>e\<in>set es. \<not> is_start e)"
  let ?s0 = "step (ClickStart outcome now wid) s"
  from h have "lap_inv [] ?s0" by (simp add: lap_inv_start)
  with h have "lap_inv ([] @ boundaries es ?s0) (run es ?s0)" by (intro lap_inv_run) simp_all
  then have inv: "lap_inv (boundaries es ?s0) (run es ?s0)" by simp
  show "let s0 = ?s0; L = laps (run es s0); B = boundaries es s0
      in length L = length B
         \<and> (\<forall>n<length L.
               lapNumber (L ! n) = n + 1
             \<and> time (L ! n) = formatTime (fst (B ! n))
             \<and> distance (L ! n) = snd (B ! n)
             \<and> lapTime (L ! n)
                 = formatTime (fst (B ! n) - (if n = 0 then 0 else fst (B ! (n - 1))))
             \<and> lapDistance (L ! n)
                 = distance (L ! n) - (if n = 0 then 0 else distance (L ! (n - 1))))"
    unfolding Let_def using inv unfolding lap_inv_def by auto
qed

theorem C5_lap_deltas_witness:
  "hasLocationPermission (initial\<lparr>hasLocationPermission := True\<rparr>)
   \<and> \<not> isTracking (initial\<lparr>hasLocationPermission := True\<rparr>)
   \<and> filter is_start lapped = []
   \<and> length (laps (run lapped
        (step (ClickStart Granted 500 1) (initial\<lparr>hasLocationPermission := True\<rparr>)))) = 2
   \<and> (let s0 = step (ClickStart Granted 500 1) (initial\<lparr>hasLocationPermission := True\<rparr>);
           L = laps (run lapped s0);
           B = boundaries lapped s0
       in length L = length B
          \<and> lapNumber (L ! 1) = 2
          \<and> time (L ! 1) = formatTime (fst (B ! 1))
          \<and> distance (L ! 1) = snd (B ! 1)
          \<and> lapTime (L ! 1) = formatTime (fst (B ! 1) - fst (B ! 0))
          \<and> lapDistance (L ! 1) = distance (L ! 1) - distance (L ! 0)
          \<and> lapTime (L ! 0) = formatTime (fst (B ! 0) - 0)
          \<and> lapDistance (L ! 0) = distance (L ! 0) - 0)"
proof -
  let ?t = "initial\<lparr>hasLocationPermission := True\<rparr>"
  let ?u = "step (ClickStart Granted 500 1) ?t"
  have h: "hasLocationPermission ?t \<and> \<not> isTracking ?t \<and> (\<forall>e\<in>set lapped. \<not> is_start e)"
    by (simp add: initial_def lapped_def)
  have f: "filter is_start lapped = []" by (simp add: lapped_def)
  have n: "length (laps (run lapped ?u)) = 2" by (simp only: lapped_laps) simp
  from C5_lap_deltas [of ?t lapped Granted 500 1] h
  have c: "length (laps (run lapped ?u)) = length (boundaries lapped ?u)
     \<and> (\<forall>n<length (laps (run lapped ?u)).
           lapNumber (laps (run lapped ?u) ! n) = n + 1
         \<and> time (laps (run lapped ?u) ! n) = formatTime (fst (boundaries lapped ?u ! n))
         \<and> distance (laps (run lapped ?u) ! n) = snd (boundaries lapped ?u ! n)
         \<and> lapTime (laps (run lapped ?u) ! n)
             = formatTime (fst (boundaries lapped ?u ! n)
                 - (if n = 0 then 0 else fst (boundaries lapped ?u ! (n - 1))))
         \<and> lapDistance (laps (run lapped ?u) ! n)
             = distance (laps (run lapped ?u) ! n)
                 - (if n = 0 then 0 else distance (laps (run lapped ?u) ! (n - 1))))"
    unfolding Let_def by blast
  have q: "lapNumber (laps (run lapped ?u) ! k) = k + 1
         \<and> time (laps (run lapped ?u) ! k) = formatTime (fst (boundaries lapped ?u ! k))
         \<and> distance (laps (run lapped ?u) ! k) = snd (boundaries lapped ?u ! k)
         \<and> lapTime (laps (run lapped ?u) ! k)
             = formatTime (fst (boundaries lapped ?u ! k)
                 - (if k = 0 then 0 else fst (boundaries lapped ?u ! (k - 1))))
         \<and> lapDistance (laps (run lapped ?u) ! k)
             = distance (laps (run lapped ?u) ! k)
                 - (if k = 0 then 0 else distance (laps (run lapped ?u) ! (k - 1)))"
    if "k < 2" for k
  proof -
    from n that have "k < length (laps (run lapped ?u))" by simp
    with c show ?thesis by blast
  qed
  have l: "length (laps (run lapped ?u)) = length (boundaries lapped ?u)"
    using c by blast
  show ?thesis
    unfolding Let_def
    using h f n l q [of 0] q [of 1] by simp
qed

text \<open>
  C6. A stop during an active session first records a lap exactly as \<open>recordLap\<close>
  does, so the list of laps grows by one entry for the segment since the last boundary,
  and then clears \<open>isTracking\<close>. The elapsed seconds keep their value, also through
  any later events up to the next start.
\<close>

theorem C6_stop_finalizes_lap:
  "running s \<longrightarrow>
     stopTracking s =
       (recordLap s)\<lparr>isTracking := False, watchIdRef := None, startTimeRef := None,
                     lastPositionRef := None, currentPosition := None\<rparr>
     \<and> laps (stopTracking s) =
         laps s @ [\<lparr>lapNumber = length (laps s) + 1,
                    time = formatTime (elapsedTime s),
                    distance = totalDistance s,
                    lapTime = formatTime (elapsedTime s - lastLapTimeRef s),
                    lapDistance = totalDistance s - lastLapDistanceRef s\<rparr>]
     \<and> \<not> isTracking (stopTracking s)
     \<and> elapsedTime (stopTracking s) = elapsedTime s
     \<and> ((\<forall>e\<in>set es. \<not> is_start e) \<longrightarrow>
          elapsedTime (run es (step ClickStop s)) = elapsedTime s
          \<and> laps (run es (step ClickStop s)) = laps (stopTracking s))"
proof (intro impI)
  assume r: "running s"
  then have t: "isTracking s" by (simp add: running_def)
  have frozen: "run es (step ClickStop s) = step ClickStop s" if "\<forall>e\<in>set es. \<not> is_start e"
    using stopped_run [OF stopped_after_stop [OF t] that] .
  have st: "elapsedTime (step ClickStop s) = elapsedTime s"
    "laps (step ClickStop s) = laps (stopTracking s)"
    using r by (simp_all add: step_def Let_def timerEffect_def stopTracking_running recordLap_running)
  show "stopTracking s =
       (recordLap s)\<lparr>isTracking := False, watchIdRef := None, startTimeRef := None,
                     lastPositionRef := None, currentPosition := None\<rparr>
     \<and> laps (stopTracking s) =
         laps s @ [\<lparr>lapNumber = length (laps s) + 1,
                    time = formatTime (elapsedTime s),
                    distance = totalDistance s,
                    lapTime = formatTime (elapsedTime s - lastLapTimeRef s),
                    lapDistance = totalDistance s - lastLapDistanceRef s\<rparr>]
     \<and> \<not> isTracking (stopTracking s)
     \<and> elapsedTime (stopTracking s) = elapsedTime s
     \<and> ((\<forall>e\<in>set es. \<not> is_start e) \<longrightarrow>
          elapsedTime (run es (step ClickStop s)) = elapsedTime s
          \<and> laps (run es (step ClickStop s)) = laps (stopTracking s))"
    using r frozen st
    by (simp add: stopTracking_running recordLap_running)
qed

theorem C6_stop_finalizes_lap_witness:
  "running (step (Tick 66000) anchored)
   \<and> filter is_start [ClickLap, Tick 200000, GpsSample 1 1 70000 70001, ClickStop] = []
   \<and> laps (stopTracking (step (Tick 66000) anchored)) =
        [\<lparr>lapNumber = 1, time = ''01:05'', distance = 0, lapTime = ''01:05'', lapDistance = 0\<rparr>]
   \<and> \<not> isTracking (stopTracking (step (Tick 66000) anchored))
   \<and> elapsedTime (stopTracking (step (Tick 66000) anchored)) = 65
   \<and> elapsedTime (run [ClickLap, Tick 200000, GpsSample 1 1 70000 70001, ClickStop]
        (step ClickStop (step (Tick 66000) anchored))) = 65
   \<and> laps (run [ClickLap, Tick 200000, GpsSample 1 1 70000 70001, ClickStop]
        (step ClickStop (step (Tick 66000) anchored)))
       = laps (stopTracking (step (Tick 66000) anchored))"
proof -
  have r: "running (step (Tick 66000) anchored)"
    by (simp only: tick_anchored) (simp add: anchored_eq running_def truthy_def initial_def)
  have v: "laps (step (Tick 66000) anchored) = []"
    "elapsedTime (step (Tick 66000) anchored) = 65"
    "totalDistance (step (Tick 66000) anchored) = 0"
    "lastLapTimeRef (step (Tick 66000) anchored) = 0"
    "lastLapDistanceRef (step (Tick 66000) anchored) = 0"
    by (simp_all only: tick_anchored) (simp_all add: anchored_eq initial_def)
  from C6_stop_finalizes_lap [of "step (Tick 66000) anchored"
      "[ClickLap, Tick 200000, GpsSample 1 1 70000 70001, ClickStop]"] r
  have c: "laps (stopTracking (step (Tick 66000) anchored)) =
         laps (step (Tick 66000) anchored)
         @ [\<lparr>lapNumber = length (laps (step (Tick 66000) anchored)) + 1,
              time = formatTime (elapsedTime (step (Tick 66000) anchored)),
              distance = totalDistance (step (Tick 66000) anchored),
              lapTime = formatTime (elapsedTime (step (Tick 66000) anchored)
                          - lastLapTimeRef (step (Tick 66000) anchored)),
              lapDistance = totalDistance (step (Tick 66000) anchored)
                          - lastLapDistanceRef (step (Tick 66000) anchored)\<rparr>]
     \<and> \<not> isTracking (stopTracking (step (Tick 66000) anchored))
     \<and> elapsedTime (stopTracking (step (Tick 66000) anchored))
         = elapsedTime (step (Tick 66000) anchored)
     \<and> ((\<forall>e\<in>set [ClickLap, Tick 200000, GpsSample 1 1 70000 70001, ClickStop].
            \<not> is_start e) \<longrightarrow>
          elapsedTime (run [ClickLap, Tick 200000, GpsSample 1 1 70000 70001, ClickStop]
              (step ClickStop (step (Tick 66000) anchored)))
            = elapsedTime (step (Tick 66000) anchored)
          \<and> laps (run [ClickLap, Tick 200000, GpsSample 1 1 70000 70001, ClickStop]
              (step ClickStop (step (Tick 66000) anchored)))
            = laps (stopTracking (step (Tick 66000) anchored)))"
    by blast
  have n: "\<forall>e\<in>set [ClickLap, Tick 200000, GpsSample 1 1 70000 70001, ClickStop]. \<not> is_start e"
    by simp
  from c n r show ?thesis unfolding v by (simp add: formatTime_65)
qed

text \<open>
  C7. Outside their phase the transitions change nothing of the session's results. A
  second stop in a row equals the first; without tracking, \<open>recordLap\<close> returns the
  state as it is and a stop leaves laps, elapsed seconds, total distance and both lap
  baselines as they are. While tracking there is no Start button, and without the
  interval no tick arrives. The handlers are total: none of them has a failing branch.
\<close>

theorem C7_invalid_phase_noop:
  "stopTracking (stopTracking s) = stopTracking s
   \<and> (\<not> isTracking s \<longrightarrow>
        recordLap s = s
        \<and> laps (stopTracking s) = laps s
        \<and> elapsedTime (stopTracking s) = elapsedTime s
        \<and> totalDistance (stopTracking s) = totalDistance s
        \<and> lastLapTimeRef (stopTracking s) = lastLapTimeRef s
        \<and> lastLapDistanceRef (stopTracking s) = lastLapDistanceRef s)
   \<and> recordLap initial = initial
   \<and> stopTracking initial = initial
   \<and> recordLap (stopTracking s) = stopTracking s
   \<and> (isTracking s \<longrightarrow> step (ClickStart outcome now wid) s = s)
   \<and> (\<not> timerRef s \<longrightarrow> step (Tick now) s = s)"
proof -
  have a: "recordLap s = s" if "\<not> isTracking s" for s
    using that by (simp add: recordLap_idle running_def)
  have b: "\<not> isTracking initial" by (simp add: initial_def)
  have c: "step (ClickStart outcome now wid) s = s" if "isTracking s"
    using that by (simp add: step_def)
  have d: "step (Tick now) s = s" if "\<not> timerRef s"
    using that by (simp add: step_def)
  show ?thesis
    using stopTracking_twice a [OF stopTracking_not_tracking] a [OF b] a c d
    by (auto simp: stopTracking_idle initial_def)
qed

theorem C7_invalid_phase_noop_witness:
  "\<not> isTracking (stopTracking (step (Tick 66000) anchored))
   \<and> recordLap (stopTracking (step (Tick 66000) anchored))
       = stopTracking (step (Tick 66000) anchored)
   \<and> laps (stopTracking (stopTracking (step (Tick 66000) anchored)))
       = laps (stopTracking (step (Tick 66000) anchored))
   \<and> elapsedTime (stopTracking (stopTracking (step (Tick 66000) anchored)))
       = elapsedTime (stopTracking (step (Tick 66000) anchored))
   \<and> length (laps (stopTracking (stopTracking (step (Tick 66000) anchored)))) = 1
   \<and> elapsedTime (stopTracking (stopTracking (step (Tick 66000) anchored))) = 65"
proof -
  have n: "\<not> isTracking (stopTracking (step (Tick 66000) anchored))"
    by (simp add: stopTracking_def Let_def)
  have v: "length (laps (stopTracking (step (Tick 66000) anchored))) = 1"
    "elapsedTime (stopTracking (step (Tick 66000) anchored)) = 65"
    by (simp_all only: tick_anchored)
       (simp_all add: anchored_eq initial_def stopTracking_def recordLap_def truthy_def Let_def)
  from C7_invalid_phase_noop [of "stopTracking (step (Tick 66000) anchored)"] n v
  show ?thesis by simp
qed

text \<open>
  C8. After a stop has taken effect the anchor and the total distance stay as the stop
  left them, through any events other than a start; the stop itself keeps the total and
  empties the anchor.
\<close>

theorem C8_accumulator_frozen:
  "isTracking s \<and> (\<forall>e\<in>set es. \<not> is_start e) \<longrightarrow>
     lastPositionRef (run es (step ClickStop s)) = lastPositionRef (step ClickStop s)
     \<and> totalDistance (run es (step ClickStop s)) = totalDistance (step ClickStop s)
     \<and> totalDistance (step ClickStop s) = totalDistance s
     \<and> \<not> isTracking (run es (step ClickStop s))"
proof (intro impI)
  assume h: "isTracking s \<and> (\<forall>e\<in>set es. \<not> is_start e)"
  then have st: "stopped (step ClickStop s)" by (simp add: stopped_after_stop)
  with h have "run es (step ClickStop s) = step ClickStop s" by (simp add: stopped_run)
  moreover have "totalDistance (step ClickStop s) = totalDistance s"
    by (simp add: step_def stopTracking_def recordLap_def Let_def timerEffect_def)
  ultimately show "lastPositionRef (run es (step ClickStop s)) = lastPositionRef (step ClickStop s)
     \<and> totalDistance (run es (step ClickStop s)) = totalDistance (step ClickStop s)
     \<and> totalDistance (step ClickStop s) = totalDistance s
     \<and> \<not> isTracking (run es (step ClickStop s))"
    using st by (simp add: stopped_def)
qed

theorem C8_accumulator_frozen_witness:
  "isTracking anchored
   \<and> filter is_start [GpsSample 0 1 3000 3001, Tick 5000, ClickLap, ClickStop, GpsError] = []
   \<and> lastPositionRef (run [GpsSample 0 1 3000 3001, Tick 5000, ClickLap, ClickStop, GpsError]
        (step ClickStop anchored)) = None
   \<and> totalDistance (run [GpsSample 0 1 3000 3001, Tick 5000, ClickLap, ClickStop, GpsError]
        (step ClickStop anchored)) = totalDistance anchored
   \<and> \<not> isTracking (run [GpsSample 0 1 3000 3001, Tick 5000, ClickLap, ClickStop, GpsError]
        (step ClickStop anchored))"
proof -
  have t: "isTracking anchored" by (simp add: anchored_eq)
  have p: "lastPositionRef (step ClickStop anchored) = None"
    by (simp add: step_def stopTracking_def Let_def timerEffect_def)
  from C8_accumulator_frozen [of anchored
      "[GpsSample 0 1 3000 3001, Tick 5000, ClickLap, ClickStop, GpsError]"] t p
  show ?thesis by simp
qed

section \<open>Elapsed time\<close>

text \<open>
  C9. In every state reached from the initial one in which a session is active, a tick
  sets the elapsed seconds to the floor of the milliseconds between the start time and the
  reading of the clock, divided by 1000. A session started at a clock reading \<open>t1\<close>
  other than \<open>0\<close> shows 65 elapsed seconds at the tick of \<open>t1 + 65000\<close>, formatted as
  \<open>01:05\<close>: minutes and seconds on two digits, no hours.
\<close>

theorem C9_tick_elapsed:
  "(running (run es initial) \<and> startTimeRef (run es initial) = Some t0 \<longrightarrow>
      elapsedTime (step (Tick now) (run es initial))
        = \<lfloor>(real_of_int now - real_of_int t0) / 1000\<rfloor>)
   \<and> (hasLocationPermission s \<and> \<not> isTracking s \<and> t1 \<noteq> 0 \<longrightarrow>
        elapsedTime (run [ClickStart outcome t1 wid, Tick (t1 + 65000)] s) = 65
        \<and> formatTime (elapsedTime (run [ClickStart outcome t1 wid, Tick (t1 + 65000)] s))
            = ''01:05'')"
proof -
  have a: "elapsedTime (step (Tick now) (run es initial))
        = \<lfloor>(real_of_int now - real_of_int t0) / 1000\<rfloor>"
    if "running (run es initial)" "startTimeRef (run es initial) = Some t0"
  proof -
    from that(1) timer_run [OF timer_initial, of es] have "timerRef (run es initial)" by simp
    with that(2) show ?thesis by (simp add: step_def timerCallback_def)
  qed
  have b: "elapsedTime (run [ClickStart outcome t1 wid, Tick (t1 + 65000)] s) = 65"
    if "hasLocationPermission s" "\<not> isTracking s" "t1 \<noteq> 0"
    using that
    by (simp add: step_def startTracking_def timerEffect_def timerCallback_def truthy_def Let_def)
  show ?thesis using a b formatTime_65 by simp
qed

theorem C9_tick_elapsed_witness:
  "running (run [ClickStart Granted 400 1, ClickStart Granted 500 1] initial)
   \<and> startTimeRef (run [ClickStart Granted 400 1, ClickStart Granted 500 1] initial) = Some 500
   \<and> elapsedTime (step (Tick 65999) (run [ClickStart Granted 400 1, ClickStart Granted 500 1] initial))
       = 65
   \<and> hasLocationPermission (initial\<lparr>hasLocationPermission := True\<rparr>)
   \<and> \<not> isTracking (initial\<lparr>hasLocationPermission := True\<rparr>)
   \<and> (1700000000000::int) \<noteq> 0
   \<and> elapsedTime (run [ClickStart Granted 1700000000000 1, Tick (1700000000000 + 65000)]
        (initial\<lparr>hasLocationPermission := True\<rparr>)) = 65
   \<and> formatTime (elapsedTime
        (run [ClickStart Granted 1700000000000 1, Tick (1700000000000 + 65000)]
          (initial\<lparr>hasLocationPermission := True\<rparr>))) = ''01:05''"
proof -
  have a: "running (run [ClickStart Granted 400 1, ClickStart Granted 500 1] initial)
     \<and> startTimeRef (run [ClickStart Granted 400 1, ClickStart Granted 500 1] initial) = Some 500"
    by (simp add: step_def startTracking_def requestLocationPermission_def timerEffect_def
        running_def truthy_def initial_def Let_def)
  have b: "hasLocationPermission (initial\<lparr>hasLocationPermission := True\<rparr>)
     \<and> \<not> isTracking (initial\<lparr>hasLocationPermission := True\<rparr>)"
    by (simp add: initial_def)
  from C9_tick_elapsed [of "[ClickStart Granted 400 1, ClickStart Granted 500 1]" 500 65999
      "initial\<lparr>hasLocationPermission := True\<rparr>" 1700000000000 Granted 1]
    a b
  show ?thesis by (simp add: formatTime_65)
qed

end
